theory Spec2Isabelle
  imports Complex_Main "HOL-Library.Finite_Map"
begin

text \<open>
  The program, \<^verbatim>\<open>src/app.js\<close>, is a page that searches a movie database. Its core is a
  store: \<^verbatim>\<open>createStore\<close> keeps a state and a list of subscribers, \<^verbatim>\<open>dispatch\<close> routes an
  action to a reducer, assigns the state that the reducer returns and notifies the
  subscribers, and \<^verbatim>\<open>dispatchEffect\<close> routes an action to an effect. On the store the program
  builds four reducers and one effect, the search request. This theory embeds the store,
  the reducers and the effect as functions on JavaScript values, and proves what they do.
\<close>

section \<open>JavaScript values\<close>

text \<open>
  The values the program computes with: \<^verbatim>\<open>undefined\<close>, \<^verbatim>\<open>null\<close>, booleans, finite
  numbers, strings, arrays and objects (an object literal, or what \<^verbatim>\<open>JSON.parse\<close> and
  \<^verbatim>\<open>Object.assign({}, ...)\<close> build). An object is its prototype and its own properties, a
  finite map from names to values, all of them writable data properties of an object that
  is not frozen; the order of the
  properties is not kept, since nothing in the program reads it. A number is the real it
  denotes, and a string is a list of characters. Functions are not values of this type:
  the program keeps them only in the two handler tables and in the subscriber list,
  modelled below.

  The prototype of an object literal and of an object of \<^verbatim>\<open>JSON.parse\<close> is
  \<^verbatim>\<open>Object.prototype\<close>. \<^verbatim>\<open>Object.assign\<close> can give its result another one, see below: an
  object or an array, which then stands here with its own prototype and properties, or none
  (\<^verbatim>\<open>null\<close>).
\<close>

datatype jsval =
    JUndefined
  | JNull
  | JBool bool
  | JNum real
  | JStr string
  | JArr "jsval list"
  | JObj proto "(string, jsval) fmap"
and proto =
    ObjectPrototype
  | NoPrototype
  | ObjectProto proto "(string, jsval) fmap"
  | ArrayProto "jsval list"

text \<open>What \<^verbatim>\<open>if (v)\<close>, \<^verbatim>\<open>!v\<close> and \<^verbatim>\<open>v && ...\<close> test.\<close>

fun truthy :: "jsval \<Rightarrow> bool" where
  "truthy JUndefined = False"
| "truthy JNull = False"
| "truthy (JBool b) = b"
| "truthy (JNum r) = (r \<noteq> 0)"
| "truthy (JStr s) = (s \<noteq> [])"
| "truthy (JArr xs) = True"
| "truthy (JObj p m) = True"

text \<open>
  A thrown value (also the reason a promise is rejected with): an \<^verbatim>\<open>Error\<close> object with
  its \<^verbatim>\<open>name\<close> and \<^verbatim>\<open>message\<close>, or a string, as in \<^verbatim>\<open>Promise.reject(response.statusText)\<close>.
  The message of an error the runtime raises is the engine's own wording; no statement
  below depends on it.
\<close>

datatype exn =
    JSError string string
  | ThrownString string

definition TypeError :: "string \<Rightarrow> exn" where
  "TypeError message = JSError ''TypeError'' message"

text \<open>
  How a call ends. \<open>Returns\<close> and \<open>Throws\<close> are the two ways a JavaScript call
  completes. \<open>NotModelled\<close> marks the places where JavaScript does something this theory
  does not describe (a coercion of an object to a number, a wrapper object): nothing is
  claimed about them. \<open>OutOfFuel\<close> is the end of the nesting budget of re-entrant
  dispatch, see \<open>handle\<close> below.
\<close>

datatype 'a res =
    Returns 'a
  | Throws exn
  | NotModelled
  | OutOfFuel

fun res_bind :: "'a res \<Rightarrow> ('a \<Rightarrow> 'b res) \<Rightarrow> 'b res" where
  "res_bind (Returns x) f = f x"
| "res_bind (Throws e) f = Throws e"
| "res_bind NotModelled f = NotModelled"
| "res_bind OutOfFuel f = OutOfFuel"

subsection \<open>Properties\<close>

text \<open>The decimal numeral of an array index, the name of its property.\<close>

fun decimal :: "nat \<Rightarrow> string" where
  "decimal n =
     (if n < 10 then [char_of (48 + n)]
      else decimal (n div 10) @ [char_of (48 + n mod 10)])"

declare decimal.simps [simp del]

definition indexed :: "jsval list \<Rightarrow> (string, jsval) fmap" where
  "indexed xs = fmap_of_list (zip (map decimal [0..<length xs]) xs)"

text \<open>
  The own enumerable properties of a value, which \<^verbatim>\<open>Object.assign\<close> copies from a
  source: those of an object, the elements of an array, the characters of a string, and
  none for \<^verbatim>\<open>undefined\<close>, \<^verbatim>\<open>null\<close>, a boolean or a number.
\<close>

fun own_props :: "jsval \<Rightarrow> (string, jsval) fmap" where
  "own_props (JObj p m) = m"
| "own_props (JArr xs) = indexed xs"
| "own_props (JStr s) = indexed (map (\<lambda>c. JStr [c]) s)"
| "own_props JUndefined = fmempty"
| "own_props JNull = fmempty"
| "own_props (JBool b) = fmempty"
| "own_props (JNum r) = fmempty"

text \<open>
  \<^verbatim>\<open>Object.assign(target, ...sources)\<close> writes each own property of each source to the
  target, by an ordinary assignment \<^verbatim>\<open>target[k] = v\<close>. The assignment makes or overwrites
  an own property of the target, with one exception: for the name \<^verbatim>\<open>__proto__\<close>, when the
  target has no own property of that name and none of its prototypes has one before
  \<^verbatim>\<open>Object.prototype\<close> is reached, the assignment runs the setter that \<^verbatim>\<open>Object.prototype\<close>
  defines. The setter makes no property: it replaces the prototype of the target when the
  value is an object, an array or \<^verbatim>\<open>null\<close>, and does nothing for any other value.
\<close>

fun reaches_setter :: "proto \<Rightarrow> bool" where
  "reaches_setter ObjectPrototype = True"
| "reaches_setter NoPrototype = False"
| "reaches_setter (ObjectProto p m) = (fmlookup m ''__proto__'' = None \<and> reaches_setter p)"
| "reaches_setter (ArrayProto xs) = True"

fun to_proto :: "jsval \<Rightarrow> proto option" where
  "to_proto (JObj p m) = Some (ObjectProto p m)"
| "to_proto (JArr xs) = Some (ArrayProto xs)"
| "to_proto JNull = Some NoPrototype"
| "to_proto JUndefined = None"
| "to_proto (JBool b) = None"
| "to_proto (JNum r) = None"
| "to_proto (JStr s) = None"

definition assign_from ::
  "proto \<times> (string, jsval) fmap \<Rightarrow> jsval \<Rightarrow> proto \<times> (string, jsval) fmap" where
  "assign_from target source =
     (case target of (p, t) \<Rightarrow>
        let others = t ++\<^sub>f fmdrop ''__proto__'' (own_props source) in
        case fmlookup (own_props source) ''__proto__'' of
          None \<Rightarrow> (p, others)
        | Some v \<Rightarrow>
            if fmlookup t ''__proto__'' \<noteq> None \<or> \<not> reaches_setter p
            then (p, fmupd ''__proto__'' v others)
            else (case to_proto v of Some q \<Rightarrow> (q, others) | None \<Rightarrow> (p, others)))"

text \<open>
  The program always passes a fresh \<^verbatim>\<open>{}\<close> as the target; \<open>target\<close> stands for the
  properties of a target whose prototype is \<^verbatim>\<open>Object.prototype\<close>.
\<close>

definition Object_assign :: "(string, jsval) fmap \<Rightarrow> jsval list \<Rightarrow> jsval" where
  "Object_assign target sources =
     (case foldl assign_from (ObjectPrototype, target) sources of (p, t) \<Rightarrow> JObj p t)"

text \<open>
  The prototype of \<^verbatim>\<open>Object.assign({}, source, literal)\<close>, for a literal that has no
  \<^verbatim>\<open>__proto__\<close>.
\<close>

definition proto_after :: "jsval \<Rightarrow> proto" where
  "proto_after source =
     (case fmlookup (own_props source) ''__proto__'' of
        None \<Rightarrow> ObjectPrototype
      | Some v \<Rightarrow> (case to_proto v of Some q \<Rightarrow> q | None \<Rightarrow> ObjectPrototype))"

text \<open>
  The property read \<^verbatim>\<open>v.k\<close>, for a name \<open>k\<close> that no built-in prototype defines
  except \<^verbatim>\<open>length\<close>; the program reads only such names (\<^verbatim>\<open>items\<close>, \<^verbatim>\<open>length\<close>,
  \<^verbatim>\<open>results\<close>, \<^verbatim>\<open>title\<close>, ...). An object gives its own property, or else what its
  prototypes give. Reading a property of \<^verbatim>\<open>undefined\<close> or \<^verbatim>\<open>null\<close> throws.
\<close>

definition lookup_or_undefined :: "(string, jsval) fmap \<Rightarrow> string \<Rightarrow> jsval" where
  "lookup_or_undefined m k = (case fmlookup m k of Some v \<Rightarrow> v | None \<Rightarrow> JUndefined)"

fun proto_get :: "proto \<Rightarrow> string \<Rightarrow> jsval" where
  "proto_get ObjectPrototype k = JUndefined"
| "proto_get NoPrototype k = JUndefined"
| "proto_get (ObjectProto p m) k = (case fmlookup m k of Some v \<Rightarrow> v | None \<Rightarrow> proto_get p k)"
| "proto_get (ArrayProto xs) k =
     (if k = ''length'' then JNum (real (length xs)) else lookup_or_undefined (indexed xs) k)"

fun get_prop :: "jsval \<Rightarrow> string \<Rightarrow> jsval res" where
  "get_prop JUndefined k = Throws (TypeError (''Cannot read properties of undefined, reading '' @ k))"
| "get_prop JNull k = Throws (TypeError (''Cannot read properties of null, reading '' @ k))"
| "get_prop (JObj p m) k =
     Returns (case fmlookup m k of Some v \<Rightarrow> v | None \<Rightarrow> proto_get p k)"
| "get_prop (JArr xs) k =
     Returns (if k = ''length'' then JNum (real (length xs))
              else lookup_or_undefined (indexed xs) k)"
| "get_prop (JStr s) k =
     Returns (if k = ''length'' then JNum (real (length s))
              else lookup_or_undefined (indexed (map (\<lambda>c. JStr [c]) s)) k)"
| "get_prop (JBool b) k = Returns JUndefined"
| "get_prop (JNum r) k = Returns JUndefined"

section \<open>The store\<close>

text \<open>
  An action is an object with a \<^verbatim>\<open>type\<close>, a string, and further properties that only the
  handlers read.
\<close>

record action =
  type :: string
  payload :: "(string, jsval) fmap"

definition action_prop :: "action \<Rightarrow> string \<Rightarrow> jsval" where
  "action_prop a k = lookup_or_undefined (payload a) k"

text \<open>
  The variables that \<^verbatim>\<open>createStore\<close> closes over are \<open>state\<close> and \<open>subscribers\<close>. A
  subscriber is a function; the list holds the number that names it, and the table
  \<open>subscriber_of\<close> gives the function. \<open>trace\<close> is not a variable of the program: it
  records what the outside can observe, namely every call of a subscriber with the state
  it was passed, and every network request.
\<close>

datatype event =
    Notified nat jsval
  | Requested string

record world =
  state :: jsval
  subscribers :: "nat list"
  trace :: "event list"

type_synonym 'a step = "world \<Rightarrow> 'a res \<times> world"

fun step_bind :: "'a step \<Rightarrow> ('a \<Rightarrow> 'b step) \<Rightarrow> 'b step" where
  "step_bind m f w =
     (case m w of
        (Returns x, w') \<Rightarrow> f x w'
      | (Throws e, w') \<Rightarrow> (Throws e, w')
      | (NotModelled, w') \<Rightarrow> (NotModelled, w')
      | (OutOfFuel, w') \<Rightarrow> (OutOfFuel, w'))"

text \<open>
  The handle \<^verbatim>\<open>{ dispatch, dispatchEffect }\<close> that every reducer, effect and subscriber
  receives.
\<close>

record dispatchers =
  h_dispatch :: "action \<Rightarrow> unit step"
  h_dispatchEffect :: "action \<Rightarrow> unit step"

type_synonym reducer = "jsval \<Rightarrow> action \<Rightarrow> dispatchers \<Rightarrow> jsval step"
type_synonym effect = "jsval \<Rightarrow> action \<Rightarrow> dispatchers \<Rightarrow> unit step"
type_synonym subscriber = "jsval \<Rightarrow> dispatchers \<Rightarrow> unit step"

text \<open>
  The arguments of \<^verbatim>\<open>createStore\<close>: the two handler tables, each a plain object whose own
  properties are functions. \<open>subscriber_of\<close> names the functions that can be subscribed.
\<close>

record registry =
  reducers_of :: "(string, reducer) fmap"
  effects_of :: "(string, effect) fmap"
  subscriber_of :: "nat \<Rightarrow> subscriber"

subsection \<open>Looking a handler up\<close>

text \<open>
  \<^verbatim>\<open>reducers[type]\<close> and \<^verbatim>\<open>effects[type]\<close> are property reads on a plain object. A name
  the table does not hold is looked up in \<^verbatim>\<open>Object.prototype\<close>, whose properties are
  these.
\<close>

definition Object_prototype :: "string list" where
  "Object_prototype =
     [''constructor'', ''hasOwnProperty'', ''isPrototypeOf'', ''propertyIsEnumerable'',
      ''toLocaleString'', ''toString'', ''valueOf'', ''__proto__'',
      ''__defineGetter__'', ''__defineSetter__'', ''__lookupGetter__'', ''__lookupSetter__'']"

datatype 'f member =
    Missing
  | Own 'f
  | Inherited string

definition member_of :: "(string, 'f) fmap \<Rightarrow> string \<Rightarrow> 'f member" where
  "member_of table name =
     (case fmlookup table name of
        Some f \<Rightarrow> Own f
      | None \<Rightarrow> if name \<in> set Object_prototype then Inherited name else Missing)"

text \<open>
  \<^verbatim>\<open>table[type](state, action, handle)\<close> when the member is inherited: the built-in is
  called with the table as \<^verbatim>\<open>this\<close> and the state as its first argument.
  \<^verbatim>\<open>toString\<close> returns the tag of a plain object; \<^verbatim>\<open>isPrototypeOf\<close> is false, since the
  table is in no value's prototype chain; \<^verbatim>\<open>constructor\<close> is \<^verbatim>\<open>Object\<close>, which returns a
  new object for \<^verbatim>\<open>undefined\<close> and \<^verbatim>\<open>null\<close> and an object itself; \<^verbatim>\<open>__proto__\<close> is an object
  and not a function, and \<^verbatim>\<open>__defineGetter__\<close> and \<^verbatim>\<open>__defineSetter__\<close> refuse their
  second argument, the action, which is not a function: a \<^verbatim>\<open>TypeError\<close> each. The others
  convert the state to a property name, wrap it, return the table or call a
  \<^verbatim>\<open>toString\<close> that the table may define itself, and are left out.
\<close>

definition call_inherited :: "string \<Rightarrow> jsval \<Rightarrow> jsval res" where
  "call_inherited name arg =
     (if name = ''toString'' then Returns (JStr ''[object Object]'')
      else if name = ''isPrototypeOf'' then Returns (JBool False)
      else if name = ''constructor'' then
        (case arg of
           JUndefined \<Rightarrow> Returns (JObj ObjectPrototype fmempty)
         | JNull \<Rightarrow> Returns (JObj ObjectPrototype fmempty)
         | JObj p m \<Rightarrow> Returns arg
         | JArr xs \<Rightarrow> Returns arg
         | _ \<Rightarrow> NotModelled)
      else if name = ''__proto__'' then Throws (TypeError ''table[type] is not a function'')
      else if name = ''__defineGetter__'' \<or> name = ''__defineSetter__'' then
        Throws (TypeError ''Object.prototype.__defineGetter__: Expecting function'')
      else NotModelled)"

subsection \<open>The operations\<close>

text \<open>
  \<^verbatim>\<open>createStore\<close> starts from the initial state with no subscriber. The initial state is
  the third argument, and the default \<^verbatim>\<open>{}\<close> when that is left out or \<^verbatim>\<open>undefined\<close>.
\<close>

definition createStore :: "jsval \<Rightarrow> world" where
  "createStore initialState =
     \<lparr>state = (if initialState = JUndefined then JObj ObjectPrototype fmempty else initialState),
      subscribers = [], trace = []\<rparr>"

definition getState :: "world \<Rightarrow> jsval" where
  "getState w = state w"

definition subscribe :: "nat \<Rightarrow> world \<Rightarrow> world" where
  "subscribe subscriber w = w\<lparr>subscribers := subscribers w @ [subscriber]\<rparr>"

text \<open>
  \<^verbatim>\<open>subscribers.forEach(subscriber => subscriber(state, { dispatch, dispatchEffect }))\<close>.
  \<^verbatim>\<open>forEach\<close> visits the elements the array had when the loop began; each call reads the
  variable \<^verbatim>\<open>state\<close> as it is then; a subscriber that throws ends the loop.
\<close>

fun forEach_subscriber :: "registry \<Rightarrow> dispatchers \<Rightarrow> nat list \<Rightarrow> unit step" where
  "forEach_subscriber reg h [] w = (Returns (), w)"
| "forEach_subscriber reg h (subscriber # rest) w =
     step_bind
       (subscriber_of reg subscriber (state w) h)
       (\<lambda>_. forEach_subscriber reg h rest)
       (w\<lparr>trace := trace w @ [Notified subscriber (state w)]\<rparr>)"

text \<open>
  \<^verbatim>\<open>dispatch\<close>, with \<open>h\<close> the handle it passes on. The assignment to \<^verbatim>\<open>state\<close> happens
  when the reducer has returned.
\<close>

definition assign_and_notify :: "registry \<Rightarrow> dispatchers \<Rightarrow> jsval \<Rightarrow> unit step" where
  "assign_and_notify reg h newState w =
     forEach_subscriber reg h (subscribers w) (w\<lparr>state := newState\<rparr>)"

definition dispatch :: "registry \<Rightarrow> dispatchers \<Rightarrow> action \<Rightarrow> unit step" where
  "dispatch reg h a w =
     (case member_of (reducers_of reg) (type a) of
        Missing \<Rightarrow> (Returns (), w)
      | Own reducer \<Rightarrow> step_bind (reducer (state w) a h) (assign_and_notify reg h) w
      | Inherited name \<Rightarrow>
          step_bind (\<lambda>w. (call_inherited name (state w), w)) (assign_and_notify reg h) w)"

text \<open>\<^verbatim>\<open>dispatchEffect\<close>: what the effect returns is dropped.\<close>

definition dispatchEffect :: "registry \<Rightarrow> dispatchers \<Rightarrow> action \<Rightarrow> unit step" where
  "dispatchEffect reg h a w =
     (case member_of (effects_of reg) (type a) of
        Missing \<Rightarrow> (Returns (), w)
      | Own effect \<Rightarrow> effect (state w) a h w
      | Inherited name \<Rightarrow> (res_bind (call_inherited name (state w)) (\<lambda>_. Returns ()), w))"

text \<open>
  The handle of the store itself. A handler may call it, and the call may call a handler
  again: \<open>handle reg n\<close> allows \<open>n\<close> calls inside one another, and a deeper one ends
  in \<open>OutOfFuel\<close>.
\<close>

primrec handle :: "registry \<Rightarrow> nat \<Rightarrow> dispatchers" where
  "handle reg 0 =
     \<lparr>h_dispatch = (\<lambda>a w. (OutOfFuel, w)), h_dispatchEffect = (\<lambda>a w. (OutOfFuel, w))\<rparr>"
| "handle reg (Suc n) =
     \<lparr>h_dispatch = dispatch reg (handle reg n),
      h_dispatchEffect = dispatchEffect reg (handle reg n)\<rparr>"

section \<open>The application\<close>

subsection \<open>Helpers\<close>

text \<open>
  What a template literal \<^verbatim>\<open>`${v}`\<close> puts for a value: a string is itself,
  \<^verbatim>\<open>undefined\<close>, \<^verbatim>\<open>null\<close> and the booleans are their names, a natural number up to
  \<open>2\<^sup>5\<^sup>3 - 1\<close>, the largest that every engine prints digit by digit, is its decimal
  numeral.
\<close>

fun template :: "jsval \<Rightarrow> string res" where
  "template (JStr s) = Returns s"
| "template JUndefined = Returns ''undefined''"
| "template JNull = Returns ''null''"
| "template (JBool b) = Returns (if b then ''true'' else ''false'')"
| "template (JNum r) =
     (if r = real (nat \<lfloor>r\<rfloor>) \<and> r < 2 ^ 53 then Returns (decimal (nat \<lfloor>r\<rfloor>))
      else NotModelled)"
| "template (JArr xs) = NotModelled"
| "template (JObj p m) = NotModelled"

text \<open>
  For a thrown value: a string is itself; an error object is converted by
  \<^verbatim>\<open>Error.prototype.toString\<close>, which joins the name and the message with a colon and
  leaves out whichever is empty.
\<close>

fun template_exn :: "exn \<Rightarrow> string" where
  "template_exn (ThrownString s) = s"
| "template_exn (JSError name message) =
     (if name = [] then message
      else if message = [] then name
      else name @ '': '' @ message)"

definition buildMovieObject :: "jsval \<Rightarrow> jsval res" where
  "buildMovieObject movie =
     res_bind (get_prop movie ''title'') (\<lambda>title.
     res_bind (get_prop movie ''poster_path'') (\<lambda>poster_path.
     res_bind (template poster_path) (\<lambda>poster.
     res_bind (get_prop movie ''vote_average'') (\<lambda>vote_average.
     res_bind (get_prop movie ''overview'') (\<lambda>overview.
       Returns (JObj ObjectPrototype (fmap_of_list
         [(''title'', title),
          (''thumbnail'', JStr (''https://image.tmdb.org/t/p/w92/'' @ poster)),
          (''rating'', vote_average),
          (''description'', overview),
          (''showDescription'', JBool False)])))))))"

subsection \<open>The state change pipeline\<close>

definition FETCH_MOVIES_REQUEST :: string where
  "FETCH_MOVIES_REQUEST = ''FETCH_MOVIES_REQUEST''"

definition FETCH_MOVIES_SUCCESS :: string where
  "FETCH_MOVIES_SUCCESS = ''FETCH_MOVIES_SUCCESS''"

definition FETCH_MOVIES_FAILURE :: string where
  "FETCH_MOVIES_FAILURE = ''FETCH_MOVIES_FAILURE''"

definition SHOW_MOVIE_DESCRIPTION :: string where
  "SHOW_MOVIE_DESCRIPTION = ''SHOW_MOVIES_DESCRIPTION''"

definition fetchMoviesRequest :: "jsval \<Rightarrow> jsval" where
  "fetchMoviesRequest st =
     Object_assign fmempty
       [st, JObj ObjectPrototype (fmap_of_list [(''isFetchingItems'', JBool True), (''error'', JUndefined)])]"

definition fetchMoviesSuccess :: "jsval \<Rightarrow> action \<Rightarrow> jsval" where
  "fetchMoviesSuccess st a =
     Object_assign fmempty
       [st,
        JObj ObjectPrototype (fmap_of_list [(''items'', action_prop a ''data''), (''isFetchingItems'', JBool False)])]"

definition fetchMoviesFailure :: "jsval \<Rightarrow> action \<Rightarrow> jsval" where
  "fetchMoviesFailure st a =
     Object_assign fmempty
       [st,
        JObj ObjectPrototype (fmap_of_list
          [(''items'', JUndefined), (''isFetchingItems'', JBool False),
           (''error'', action_prop a ''error'')])]"

text \<open>
  \<^verbatim>\<open>v > 0\<close> for the value of a \<^verbatim>\<open>length\<close>: a number is compared, \<^verbatim>\<open>true\<close> counts as 1,
  \<^verbatim>\<open>false\<close> and \<^verbatim>\<open>null\<close> as 0 and \<^verbatim>\<open>undefined\<close> as \<^verbatim>\<open>NaN\<close>. A string, an array or an
  object would be converted to a number first.
\<close>

fun greater_than_zero :: "jsval \<Rightarrow> bool res" where
  "greater_than_zero (JNum r) = Returns (0 < r)"
| "greater_than_zero (JBool b) = Returns b"
| "greater_than_zero JUndefined = Returns False"
| "greater_than_zero JNull = Returns False"
| "greater_than_zero (JStr s) = NotModelled"
| "greater_than_zero (JArr xs) = NotModelled"
| "greater_than_zero (JObj p m) = NotModelled"

text \<open>
  The condition \<^verbatim>\<open>state.items && state.items.length && state.items.length > 0\<close>, on the
  value of \<^verbatim>\<open>state.items\<close>.
\<close>

definition has_items :: "jsval \<Rightarrow> bool res" where
  "has_items items =
     (if \<not> truthy items then Returns False
      else res_bind (get_prop items ''length'') (\<lambda>len.
        if \<not> truthy len then Returns False else greater_than_zero len))"

text \<open>
  \<^verbatim>\<open>index === action.index\<close>: the index of an array element is a number, and only the same
  number is strictly equal to it.
\<close>

definition index_equals :: "nat \<Rightarrow> jsval \<Rightarrow> bool" where
  "index_equals index v = (v = JNum (real index))"

definition show_item :: "action \<Rightarrow> nat \<times> jsval \<Rightarrow> jsval" where
  "show_item a = (\<lambda>(index, item).
     if index_equals index (action_prop a ''index'') then
       Object_assign fmempty [item, JObj ObjectPrototype (fmap_of_list [(''showDescription'', JBool True)])]
     else
       Object_assign fmempty [item, JObj ObjectPrototype (fmap_of_list [(''showDescription'', JBool False)])])"

text \<open>
  \<^verbatim>\<open>v.map(callback)\<close>: the callback is called on each element with its index, in order,
  and the first call that throws ends the loop. An array has a \<^verbatim>\<open>map\<close> that can be called.
  So has an object that inherits from an array, unless a property \<^verbatim>\<open>map\<close> of its own or of
  a prototype before the array hides it; what \<^verbatim>\<open>map\<close> does on such an object is left out.
  No other value has one.
\<close>

fun inherits_map :: "proto \<Rightarrow> bool" where
  "inherits_map ObjectPrototype = False"
| "inherits_map NoPrototype = False"
| "inherits_map (ObjectProto p m) = (fmlookup m ''map'' = None \<and> inherits_map p)"
| "inherits_map (ArrayProto xs) = True"

fun map_res :: "('a \<Rightarrow> 'b res) \<Rightarrow> 'a list \<Rightarrow> 'b list res" where
  "map_res f [] = Returns []"
| "map_res f (x # xs) = res_bind (f x) (\<lambda>y. res_bind (map_res f xs) (\<lambda>ys. Returns (y # ys)))"

fun array_map :: "(nat \<times> jsval \<Rightarrow> jsval res) \<Rightarrow> jsval \<Rightarrow> jsval res" where
  "array_map f (JArr xs) = res_bind (map_res f (zip [0..<length xs] xs)) (\<lambda>ys. Returns (JArr ys))"
| "array_map f JUndefined = Throws (TypeError ''Cannot read properties of undefined, reading map'')"
| "array_map f JNull = Throws (TypeError ''Cannot read properties of null, reading map'')"
| "array_map f (JObj p m) =
     (if fmlookup m ''map'' = None \<and> inherits_map p then NotModelled
      else Throws (TypeError ''map is not a function''))"
| "array_map f (JBool b) = Throws (TypeError ''map is not a function'')"
| "array_map f (JNum r) = Throws (TypeError ''map is not a function'')"
| "array_map f (JStr s) = Throws (TypeError ''map is not a function'')"

definition showMovieDescription :: "jsval \<Rightarrow> action \<Rightarrow> jsval res" where
  "showMovieDescription st a =
     res_bind (get_prop st ''items'') (\<lambda>the_items.
     res_bind (has_items the_items) (\<lambda>nonempty.
     res_bind (if nonempty then array_map (\<lambda>p. Returns (show_item a p)) the_items
               else Returns JUndefined)
       (\<lambda>items.
       Returns (Object_assign fmempty [st, JObj ObjectPrototype (fmap_of_list [(''items'', items)])]))))"

text \<open>None of the four reducers uses the handle or changes anything but its result.\<close>

definition pure_reducer :: "(jsval \<Rightarrow> action \<Rightarrow> jsval res) \<Rightarrow> reducer" where
  "pure_reducer f st a h w = (f st a, w)"

definition reducers :: "(string, reducer) fmap" where
  "reducers = fmap_of_list
     [(FETCH_MOVIES_REQUEST, pure_reducer (\<lambda>st a. Returns (fetchMoviesRequest st))),
      (FETCH_MOVIES_SUCCESS, pure_reducer (\<lambda>st a. Returns (fetchMoviesSuccess st a))),
      (FETCH_MOVIES_FAILURE, pure_reducer (\<lambda>st a. Returns (fetchMoviesFailure st a))),
      (SHOW_MOVIE_DESCRIPTION, pure_reducer showMovieDescription)]"

subsection \<open>The search effect\<close>

text \<open>
  What \<^verbatim>\<open>fetch\<close> settles with: the promise is rejected (the network failed), or it is
  fulfilled with a response, of which the program reads \<^verbatim>\<open>ok\<close>, \<^verbatim>\<open>statusText\<close> and
  \<^verbatim>\<open>json()\<close>; the last is rejected when the body is not JSON, and gives the parsed value
  otherwise.
\<close>

record response =
  ok :: bool
  statusText :: string
  json :: "exn + jsval"

datatype fetched =
    Rejected exn
  | Fulfilled response

text \<open>
  The first three steps of the promise chain, up to the argument of the success action: a
  response that is not \<^verbatim>\<open>ok\<close> is rejected with its status text, the body is parsed, and
  each element of \<^verbatim>\<open>results\<close> is built into a movie object. A step that throws rejects the
  chain, which skips to \<^verbatim>\<open>catch\<close>.
\<close>

definition fetched_movies :: "fetched \<Rightarrow> jsval res" where
  "fetched_movies f =
     (case f of
        Rejected e \<Rightarrow> Throws e
      | Fulfilled r \<Rightarrow>
          if \<not> ok r then Throws (ThrownString (statusText r))
          else (case json r of
                  Inl e \<Rightarrow> Throws e
                | Inr body \<Rightarrow>
                    res_bind (get_prop body ''results'') (\<lambda>results.
                      array_map (\<lambda>(index, movie). buildMovieObject movie) results)))"

definition success_action :: "jsval \<Rightarrow> action" where
  "success_action movies =
     \<lparr>type = FETCH_MOVIES_SUCCESS, payload = fmap_of_list [(''data'', movies)]\<rparr>"

text \<open>\<^verbatim>\<open>`${error}` || 'Unknown error'\<close>: the fallback stands in for the empty string.\<close>

definition error_text :: "exn \<Rightarrow> string" where
  "error_text e = (if template_exn e = [] then ''Unknown error'' else template_exn e)"

definition failure_action :: "exn \<Rightarrow> action" where
  "failure_action e =
     \<lparr>type = FETCH_MOVIES_FAILURE, payload = fmap_of_list [(''error'', JStr (error_text e))]\<rparr>"

text \<open>
  The chain, run when \<^verbatim>\<open>fetch\<close> has settled with \<open>f\<close>. The success action is dispatched
  in the last \<^verbatim>\<open>then\<close>; \<^verbatim>\<open>catch\<close> handles a rejection of any step before it, also an
  exception of that dispatch, and dispatches the failure action.
\<close>

definition fetchMoviesRequestEffect_settled :: "dispatchers \<Rightarrow> fetched \<Rightarrow> unit step" where
  "fetchMoviesRequestEffect_settled h f w =
     (case fetched_movies f of
        Returns movies \<Rightarrow>
          (case h_dispatch h (success_action movies) w of
             (Throws e, w') \<Rightarrow> h_dispatch h (failure_action e) w'
           | other \<Rightarrow> other)
      | Throws e \<Rightarrow> h_dispatch h (failure_action e) w
      | NotModelled \<Rightarrow> (NotModelled, w)
      | OutOfFuel \<Rightarrow> (OutOfFuel, w))"

text \<open>
  The effect itself, which returns at once: with a truthy \<^verbatim>\<open>action.query\<close> it sends the
  request and leaves the chain to run later. \<^verbatim>\<open>apiKey\<close> is a global variable that this
  program reads and does not define.
\<close>

definition search_url :: "string \<Rightarrow> string \<Rightarrow> string" where
  "search_url apiKey query =
     ''https://api.themoviedb.org/3/search/movie?api_key='' @ apiKey @
     ''&language=en-UK&query='' @ query @ ''&page=1&include_adult=false''"

definition fetchMoviesRequestEffect :: "string \<Rightarrow> effect" where
  "fetchMoviesRequestEffect apiKey st a h w =
     (if truthy (action_prop a ''query'') then
        (case template (action_prop a ''query'') of
           Returns query \<Rightarrow> (Returns (), w\<lparr>trace := trace w @ [Requested (search_url apiKey query)]\<rparr>)
         | Throws e \<Rightarrow> (Throws e, w)
         | NotModelled \<Rightarrow> (NotModelled, w)
         | OutOfFuel \<Rightarrow> (OutOfFuel, w))
      else (Returns (), w))"

definition effects :: "string \<Rightarrow> (string, effect) fmap" where
  "effects apiKey = fmap_of_list [(FETCH_MOVIES_REQUEST, fetchMoviesRequestEffect apiKey)]"

text \<open>
  The store of the application, \<^verbatim>\<open>createStore(reducers, effects)\<close>, with no third argument.
\<close>

definition app :: "string \<Rightarrow> (nat \<Rightarrow> subscriber) \<Rightarrow> registry" where
  "app apiKey subs = \<lparr>reducers_of = reducers, effects_of = effects apiKey, subscriber_of = subs\<rparr>"

definition store :: world where
  "store = createStore JUndefined"

subsection \<open>Subscribers and states of the examples\<close>

text \<open>
  The view of the program (\<^verbatim>\<open>renderMoviesList\<close>, \<^verbatim>\<open>renderApp\<close>) writes to the document and
  is left out. The examples below subscribe these instead: a subscriber that only returns,
  one that throws when it is number 0, and one that, when it is number 0 and sees a state
  that is fetching, dispatches a failure.
\<close>

definition quiet :: "nat \<Rightarrow> subscriber" where
  "quiet i st h w = (Returns (), w)"



definition movie :: "string \<Rightarrow> bool \<Rightarrow> jsval" where
  "movie title shown =
     JObj ObjectPrototype (fmap_of_list [(''title'', JStr title), (''rating'', JNum 7), (''showDescription'', JBool shown)])"

definition show_action :: "real \<Rightarrow> action" where
  "show_action index =
     \<lparr>type = SHOW_MOVIE_DESCRIPTION, payload = fmap_of_list [(''index'', JNum index)]\<rparr>"





definition not_found :: jsval where
  "not_found = fetchMoviesFailure (JObj ObjectPrototype fmempty) (failure_action (ThrownString ''Not Found''))"

definition unknown_error :: jsval where
  "unknown_error = fetchMoviesFailure (JObj ObjectPrototype fmempty) (failure_action (ThrownString []))"





text \<open>
  Reducers that do not keep to themselves: the second dispatches the first through the
  handle it receives, and then throws.
\<close>

definition dispatching_reducers :: "(string, reducer) fmap" where
  "dispatching_reducers = fmap_of_list
     [(''SET'', \<lambda>st a h w. (Returns (JNum 1), w)),
      (''SET_AND_THROW'', \<lambda>st a h w.
         (case h_dispatch h \<lparr>type = ''SET'', payload = fmempty\<rparr> w of
            (r, w') \<Rightarrow> (Throws (JSError ''Error'' ''boom''), w')))]"

definition dispatching :: registry where
  "dispatching =
     \<lparr>reducers_of = dispatching_reducers, effects_of = fmempty, subscriber_of = quiet\<rparr>"





definition shown :: "real \<Rightarrow> jsval \<Rightarrow> jsval" where
  "shown index st =
     state (snd (dispatch (app ''key'' quiet) (handle (app ''key'' quiet) 1) (show_action index)
       (createStore st)))"

section \<open>Properties\<close>

subsection \<open>Auxiliary facts\<close>

lemma fmdrop_absent: "fmlookup m a = None \<Longrightarrow> fmdrop a m = m"
  by (rule fmap_ext) auto

text \<open>
  \<^verbatim>\<open>Object.assign({}, s, literal)\<close> for a literal without \<^verbatim>\<open>__proto__\<close>: the own properties of
  \<open>s\<close> other than \<^verbatim>\<open>__proto__\<close>, overwritten by those of the literal.
\<close>

lemma Object_assign_two:
  assumes "fmlookup lit ''__proto__'' = None"
  shows "Object_assign fmempty [s, JObj ObjectPrototype lit]
         = JObj (proto_after s) (fmdrop ''__proto__'' (own_props s) ++\<^sub>f lit)"
  using assms
  by (simp add: Object_assign_def assign_from_def proto_after_def fmdrop_absent
      split: option.splits)

lemma proto_after_plain:
  "fmlookup (own_props s) ''__proto__'' = None \<Longrightarrow> proto_after s = ObjectPrototype"
  by (simp add: proto_after_def)




lemmas kinds =
  FETCH_MOVIES_REQUEST_def FETCH_MOVIES_SUCCESS_def FETCH_MOVIES_FAILURE_def
  SHOW_MOVIE_DESCRIPTION_def

lemma handle_Suc_dispatch: "h_dispatch (handle reg (Suc n)) = dispatch reg (handle reg n)"
  by simp

lemma handle_Suc_dispatchEffect:
  "h_dispatchEffect (handle reg (Suc n)) = dispatchEffect reg (handle reg n)"
  by simp

text \<open>
  A miss on both channels: a type that is neither in the table nor a property of
  \<^verbatim>\<open>Object.prototype\<close> changes nothing.
\<close>

lemma dispatch_unregistered:
  assumes "fmlookup (reducers_of reg) (type a) = None" and "type a \<notin> set Object_prototype"
  shows "dispatch reg h a w = (Returns (), w)"
  using assms by (simp add: dispatch_def member_of_def)

lemma dispatchEffect_unregistered:
  assumes "fmlookup (effects_of reg) (type a) = None" and "type a \<notin> set Object_prototype"
  shows "dispatchEffect reg h a w = (Returns (), w)"
  using assms by (simp add: dispatchEffect_def member_of_def)

text \<open>
  \<^verbatim>\<open>dispatch\<close> itself neither assigns nor notifies when the reducer throws: the store is
  left as the reducer left it.
\<close>

lemma dispatch_reducer_throws_any:
  assumes "fmlookup (reducers_of reg) (type a) = Some reducer"
    and "reducer (state w) a h w = (Throws e, w')"
  shows "dispatch reg h a w = (Throws e, w')"
  using assms by (simp add: dispatch_def member_of_def)



text \<open>A subscriber that throws ends the loop: the ones after it are not called.\<close>

lemma forEach_subscriber_throws:
  assumes "\<forall>i \<in> set before. \<forall>v. subscriber_of reg i s h v = (Returns (), v)"
    and "\<forall>v. subscriber_of reg i s h v = (Throws e, v)"
    and "state w = s"
  shows "forEach_subscriber reg h (before @ i # after) w
         = (Throws e, w\<lparr>trace := trace w @ map (\<lambda>i. Notified i s) (before @ [i])\<rparr>)"
  using assms
proof (induction before arbitrary: w)
  case Nil
  then show ?case by simp
next
  case (Cons j before)
  then show ?case by simp
qed





subsection \<open>The store\<close>

text \<open>
  Claim C1. A routing miss is a silent no-op on both channels: for every action whose type
  has no registered reducer, \<^verbatim>\<open>dispatch\<close> returns without changing the state that
  \<^verbatim>\<open>getState()\<close> returns and without calling a subscriber, and for every action whose type
  has no registered effect, \<^verbatim>\<open>dispatchEffect\<close> returns without an observable effect.

  The guards \<^verbatim>\<open>!reducers[type]\<close> and \<^verbatim>\<open>!effects[type]\<close> test the table by a property read,
  which also finds what the table inherits. In the store of the application, with one
  subscriber, no reducer is registered for \<^verbatim>\<open>toString\<close>, yet dispatching it replaces the
  state \<^verbatim>\<open>{}\<close> by the string \<^verbatim>\<open>[object Object]\<close> and calls the subscriber; no effect is
  registered for \<^verbatim>\<open>__proto__\<close>, yet dispatching it on the effect channel throws a
  \<^verbatim>\<open>TypeError\<close>. For every name outside \<open>Object_prototype\<close> the no-op holds:
  \<open>dispatch_unregistered\<close> and \<open>dispatchEffect_unregistered\<close> above.
\<close>

theorem routing_miss_inherited_member:
  "dispatch (app apiKey quiet) (handle (app apiKey quiet) n)
       \<lparr>type = ''toString'', payload = fmempty\<rparr> (subscribe 0 store)
     = (Returns (),
        \<lparr>state = JStr ''[object Object]'', subscribers = [0],
         trace = [Notified 0 (JStr ''[object Object]'')]\<rparr>)
   \<and> getState (subscribe 0 store) = JObj ObjectPrototype fmempty
   \<and> fmlookup reducers ''toString'' = None
   \<and> dispatchEffect (app apiKey quiet) (handle (app apiKey quiet) n)
       \<lparr>type = ''__proto__'', payload = fmempty\<rparr> (subscribe 0 store)
     = (Throws (TypeError ''table[type] is not a function''), subscribe 0 store)
   \<and> fmlookup (effects apiKey) ''__proto__'' = None"
  by (simp add: dispatch_def dispatchEffect_def member_of_def app_def reducers_def effects_def
      Object_prototype_def kinds call_inherited_def assign_and_notify_def subscribe_def
      store_def createStore_def getState_def quiet_def)

text \<open>
  Claim C2, for a reducer that throws without having changed the store itself. When the
  reducer registered for the action throws, \<^verbatim>\<open>dispatch\<close> propagates the exception to its
  caller, the state of the store is what it was before the call, and no subscriber is
  called during the call.

  The provision is the second premise: the reducer ends in \<open>Throws e\<close> with the store
  as it was, as every reducer does that is a function of the state and the action alone.
  The conclusion has the same store, with its state and its trace.
  \<open>dispatch_reducer_throws_any\<close> above is what holds for every reducer: \<^verbatim>\<open>dispatch\<close>
  neither assigns nor notifies, and leaves the store as the reducer left it.
\<close>

theorem dispatch_reducer_throws:
  assumes "fmlookup (reducers_of reg) (type a) = Some reducer"
    and "reducer (state w) a h w = (Throws e, w)"
  shows "dispatch reg h a w = (Throws e, w)"
  using assms by (rule dispatch_reducer_throws_any)

text \<open>
  An instance: the store of the application created with the initial state \<^verbatim>\<open>null\<close>, where
  the reducer of the show-description action throws on reading \<^verbatim>\<open>state.items\<close>.
\<close>

theorem dispatch_reducer_throws_witness:
  "fmlookup (reducers_of (app ''key'' quiet)) (type (show_action 1)) = Some (pure_reducer showMovieDescription)
   \<and> pure_reducer showMovieDescription (state (subscribe 0 (createStore JNull))) (show_action 1)
        (handle (app ''key'' quiet) 1) (subscribe 0 (createStore JNull))
      = (Throws (TypeError ''Cannot read properties of null, reading items''),
         subscribe 0 (createStore JNull))
   \<and> dispatch (app ''key'' quiet) (handle (app ''key'' quiet) 1) (show_action 1)
        (subscribe 0 (createStore JNull))
      = (Throws (TypeError ''Cannot read properties of null, reading items''),
         subscribe 0 (createStore JNull))
   \<and> subscribe 0 (createStore JNull) = \<lparr>state = JNull, subscribers = [0], trace = []\<rparr>"
proof -
  have registered: "fmlookup (reducers_of (app ''key'' quiet)) (type (show_action 1))
      = Some (pure_reducer showMovieDescription)"
    by (simp add: app_def reducers_def kinds show_action_def)
  have throws: "pure_reducer showMovieDescription (state (subscribe 0 (createStore JNull)))
        (show_action 1) (handle (app ''key'' quiet) 1) (subscribe 0 (createStore JNull))
      = (Throws (TypeError ''Cannot read properties of null, reading items''),
         subscribe 0 (createStore JNull))"
    by (simp add: pure_reducer_def showMovieDescription_def subscribe_def createStore_def)
  show ?thesis
    using registered throws dispatch_reducer_throws [OF registered throws]
    by (simp add: subscribe_def createStore_def)
qed

text \<open>
  Without the provision the claim fails: \<^verbatim>\<open>dispatch\<close> passes its own handle to the reducer.
  The reducer below dispatches another action through it and then throws. When its
  exception reaches the caller, the state is no longer 0, as it was before the call, and
  the subscriber has been called.
\<close>

theorem dispatch_reducer_throws_counterexample:
  "fmlookup (reducers_of dispatching) ''SET_AND_THROW'' \<noteq> None
   \<and> getState (subscribe 0 (createStore (JNum 0))) = JNum 0
   \<and> dispatch dispatching (handle dispatching 1) \<lparr>type = ''SET_AND_THROW'', payload = fmempty\<rparr>
        (subscribe 0 (createStore (JNum 0)))
      = (Throws (JSError ''Error'' ''boom''),
         \<lparr>state = JNum 1, subscribers = [0], trace = [Notified 0 (JNum 1)]\<rparr>)"
  by (simp add: dispatch_def member_of_def dispatching_def dispatching_reducers_def
      assign_and_notify_def quiet_def subscribe_def createStore_def getState_def)




subsection \<open>The application\<close>

text \<open>
  Claim C4. The action types are exactly the strings \<^verbatim>\<open>FETCH_MOVIES_REQUEST\<close>,
  \<^verbatim>\<open>FETCH_MOVIES_SUCCESS\<close>, \<^verbatim>\<open>FETCH_MOVIES_FAILURE\<close> and \<^verbatim>\<open>SHOW_MOVIE_DESCRIPTION\<close>, and the
  reducer of the show-description action is registered under the last.

  The first three constants are the strings of their names. The value of the constant
  \<^verbatim>\<open>SHOW_MOVIE_DESCRIPTION\<close> is the string \<^verbatim>\<open>SHOW_MOVIES_DESCRIPTION\<close>, with one more letter:
  the reducer is registered under that string, no reducer is registered under
  \<^verbatim>\<open>SHOW_MOVIE_DESCRIPTION\<close>, and an action of that type is ignored.
\<close>

theorem action_kind_constants:
  "FETCH_MOVIES_REQUEST = ''FETCH_MOVIES_REQUEST''
   \<and> FETCH_MOVIES_SUCCESS = ''FETCH_MOVIES_SUCCESS''
   \<and> FETCH_MOVIES_FAILURE = ''FETCH_MOVIES_FAILURE''
   \<and> SHOW_MOVIE_DESCRIPTION = ''SHOW_MOVIES_DESCRIPTION''
   \<and> SHOW_MOVIE_DESCRIPTION \<noteq> ''SHOW_MOVIE_DESCRIPTION''
   \<and> fmlookup reducers ''SHOW_MOVIES_DESCRIPTION'' = Some (pure_reducer showMovieDescription)
   \<and> fmlookup reducers ''SHOW_MOVIE_DESCRIPTION'' = None
   \<and> dispatch (app apiKey subs) h
        \<lparr>type = ''SHOW_MOVIE_DESCRIPTION'', payload = fmap_of_list [(''index'', JNum 1)]\<rparr> w
      = (Returns (), w)"
  by (simp add: kinds reducers_def dispatch_def member_of_def app_def Object_prototype_def)

text \<open>
  Claim C5. For every failure of the search (the network failed, the response is not a
  2xx one, or its body is not JSON), the effect dispatches a single
  \<^verbatim>\<open>FETCH_MOVIES_FAILURE\<close> action whose \<^verbatim>\<open>error\<close> is a readable string, and that string is
  \<^verbatim>\<open>Unknown error\<close> when there is no message.

  The premise names the three failures and the reason \<open>e\<close> of each: what \<^verbatim>\<open>fetch\<close> or
  \<^verbatim>\<open>json()\<close> was rejected with, or the status text of the response. The chain then is one
  call of the \<^verbatim>\<open>dispatch\<close> of the handle, whatever that does, with the failure action. Its
  \<^verbatim>\<open>error\<close> is a string that is never empty: the text that the template literal makes of
  the reason, and the fallback when that text is empty. There is no message in this sense
  for a response with an empty status text; an error object with a name and an empty
  message gives its name.
\<close>

theorem search_failure_dispatches_failure:
  assumes "f = Rejected e
         \<or> (\<exists>r. f = Fulfilled r \<and> \<not> ok r \<and> e = ThrownString (statusText r))
         \<or> (\<exists>r. f = Fulfilled r \<and> ok r \<and> json r = Inl e)"
  shows "fetchMoviesRequestEffect_settled h f w
           = h_dispatch h \<lparr>type = FETCH_MOVIES_FAILURE,
                           payload = fmap_of_list [(''error'', JStr (error_text e))]\<rparr> w
       \<and> error_text e \<noteq> []
       \<and> (template_exn e = [] \<longrightarrow> error_text e = ''Unknown error'')
       \<and> (template_exn e \<noteq> [] \<longrightarrow> error_text e = template_exn e)"
  using assms
  by (auto simp add: fetchMoviesRequestEffect_settled_def fetched_movies_def failure_action_def
      error_text_def)

text \<open>
  Two instances on the store of the application with one subscriber: a response
  \<^verbatim>\<open>404 Not Found\<close>, and a response that is not \<^verbatim>\<open>ok\<close> and has an empty status text. The
  subscriber is notified once.
\<close>

theorem search_failure_dispatches_failure_witness:
  "fetchMoviesRequestEffect_settled (handle (app ''key'' quiet) 1)
      (Fulfilled \<lparr>ok = False, statusText = ''Not Found'', json = Inr JNull\<rparr>)
      (subscribe 0 store)
     = (Returns (), \<lparr>state = not_found, subscribers = [0], trace = [Notified 0 not_found]\<rparr>)
   \<and> get_prop not_found ''error'' = Returns (JStr ''Not Found'')
   \<and> fetchMoviesRequestEffect_settled (handle (app ''key'' quiet) 1)
      (Fulfilled \<lparr>ok = False, statusText = [], json = Inr JNull\<rparr>)
      (subscribe 0 store)
     = (Returns (), \<lparr>state = unknown_error, subscribers = [0], trace = [Notified 0 unknown_error]\<rparr>)
   \<and> get_prop unknown_error ''error'' = Returns (JStr ''Unknown error'')"
proof -
  let ?h = "handle (app ''key'' quiet) 1"
  let ?r = "\<lparr>ok = False, statusText = ''Not Found'', json = Inr JNull\<rparr>"
  let ?blank = "\<lparr>ok = False, statusText = [], json = Inr JNull\<rparr>"
  have failed: "Fulfilled ?r = Rejected (ThrownString ''Not Found'')
         \<or> (\<exists>r. Fulfilled ?r = Fulfilled r \<and> \<not> ok r \<and> ThrownString ''Not Found'' = ThrownString (statusText r))
         \<or> (\<exists>r. Fulfilled ?r = Fulfilled r \<and> ok r \<and> json r = Inl (ThrownString ''Not Found''))"
    by (rule disjI2, rule disjI1, rule exI [of _ ?r]) simp
  have failed0: "Fulfilled ?blank = Rejected (ThrownString [])
         \<or> (\<exists>r. Fulfilled ?blank = Fulfilled r \<and> \<not> ok r \<and> ThrownString [] = ThrownString (statusText r))
         \<or> (\<exists>r. Fulfilled ?blank = Fulfilled r \<and> ok r \<and> json r = Inl (ThrownString []))"
    by (rule disjI2, rule disjI1, rule exI [of _ ?blank]) simp
  have once: "h_dispatch ?h \<lparr>type = FETCH_MOVIES_FAILURE, payload = fmap_of_list [(''error'', JStr (error_text e))]\<rparr> (subscribe 0 store)
      = (Returns (), \<lparr>state = fetchMoviesFailure (JObj ObjectPrototype fmempty) (failure_action e), subscribers = [0],
           trace = [Notified 0 (fetchMoviesFailure (JObj ObjectPrototype fmempty) (failure_action e))]\<rparr>)" for e
    by (simp add: dispatch_def member_of_def app_def reducers_def kinds pure_reducer_def
        failure_action_def assign_and_notify_def subscribe_def store_def createStore_def quiet_def)
  have a: "fetchMoviesRequestEffect_settled ?h (Fulfilled ?r) (subscribe 0 store)
     = (Returns (), \<lparr>state = not_found, subscribers = [0], trace = [Notified 0 not_found]\<rparr>)"
    using search_failure_dispatches_failure [OF failed, of ?h "subscribe 0 store"]
    by (simp only: once not_found_def)
  have b: "fetchMoviesRequestEffect_settled ?h (Fulfilled ?blank) (subscribe 0 store)
     = (Returns (), \<lparr>state = unknown_error, subscribers = [0], trace = [Notified 0 unknown_error]\<rparr>)"
    using search_failure_dispatches_failure [OF failed0, of ?h "subscribe 0 store"]
    by (simp only: once unknown_error_def)
  have c: "get_prop not_found ''error'' = Returns (JStr ''Not Found'')"
    by (simp add: not_found_def fetchMoviesFailure_def failure_action_def error_text_def
        Object_assign_two action_prop_def lookup_or_undefined_def)
  have d: "get_prop unknown_error ''error'' = Returns (JStr ''Unknown error'')"
    by (simp add: unknown_error_def fetchMoviesFailure_def failure_action_def error_text_def
        Object_assign_two action_prop_def lookup_or_undefined_def)
  from a c b d show ?thesis
    by (intro conjI)
qed















end
